theory Spec2Isabelle
  imports Complex_Main "HOL-Library.Char_ord" "HOL-Library.List_Lexorder" "HOL-Library.Multiset"
begin

section \<open>aegis/database.py: values, errors and the driver\<close>

text \<open>
  Python values that travel through the module. \<open>VLiteral\<close> is an instance of the
  source's \<open>class Literal(str)\<close>; \<open>VStr\<close> is a plain \<open>str\<close>.
\<close>

datatype val = VNone | VInt int | VStr string | VLiteral string

text \<open>
  Exceptions as values. \<open>OperationalError\<close> is the driver's connectivity error
  (\<open>pgsql_OperationalError\<close>, \<open>mysql_OperationalError\<close>); \<open>DatabaseError\<close> is any other
  error of the driver's hierarchy (\<open>pgsql_DatabaseError = psycopg2.Error\<close>). The rest are
  Python's own. \<open>KeyError\<close> carries the key (\<open>None\<close> for Python's \<open>None\<close>).
  \<open>FormatNotModelled\<close> marks a \<open>%\<close> conversion outside the two the source uses, and
  \<open>Dangling\<close> an address with no object behind it; neither is a Python exception, and no
  state this module builds reaches \<open>Dangling\<close>.
\<close>

datatype error =
    OperationalError
  | DatabaseError
  | KeyError "string option"
  | AttributeError string
  | TypeError
  | IndexError
  | ValueError
  | Exception string
  | FormatNotModelled
  | Dangling

datatype endpoint = UnixSocket string | HostPort string int

text \<open>
  The connection arguments: for Postgres the parts of the \<open>_db_args\<close> string
  (port, dbname, host, user, password), for MySQL the parts of the \<open>_db_args\<close> dict that
  vary (db, user, passwd and the socket or host and port).
\<close>

datatype conn_args =
    PgArgs int string "string option" "string option" "string option"
  | MyArgs string "string option" "string option" endpoint

text \<open>A DB-API cursor after \<open>cursor.execute\<close>: what the source reads from it.\<close>

record cursor =
  rowcount :: int
  lastrowid :: val
  description :: "string list option"
  fetched :: "val list list"

text \<open>What the module does to the outside, in order.\<close>

datatype event =
    Connect conn_args
  | CloseHandle nat
  | Execute nat string "val list"
  | Commit nat
  | Rollback nat
  | CursorClose nat
  | Log string string

record options =
  pg_database :: string
  pg_hostname :: "string option"
  pg_username :: "string option"
  pg_password :: "string option"
  pg_port :: int
  mysql_host :: string
  mysql_schema :: string
  mysql_user :: "string option"
  mysql_password :: "string option"

text \<open>
  The environment: the import flags, \<open>tornado.options\<close>, the clock behind \<open>time.time()\<close>
  (the n-th reading; readings are reals here), the drivers (\<open>psycopg2.connect\<close> /
  \<open>MySQLdb.connect\<close> and \<open>cursor.execute\<close>, whose answers may depend on everything done
  so far) and Python's \<open>int()\<close> on a string (\<open>None\<close> where it raises ValueError).
  The driver's \<open>cursor()\<close>, \<open>commit()\<close>, \<open>rollback()\<close> and \<open>close()\<close> are taken not to
  raise.
\<close>

record env =
  pgsql_available :: bool
  mysql_available :: bool
  opts :: options
  clock :: "nat \<Rightarrow> real"
  driver_connect :: "event list \<Rightarrow> conn_args \<Rightarrow> error + nat"
  driver_execute :: "event list \<Rightarrow> nat \<Rightarrow> string \<Rightarrow> val list \<Rightarrow> error + cursor"
  py_int :: "string \<Rightarrow> int option"

datatype backend = Postgres | Mysql

text \<open>
  A \<open>PostgresConnection\<close> or \<open>MysqlConnection\<close> object; \<open>db_handle\<close> is \<open>self._db\<close>
  (a driver handle, or \<open>None\<close>).
\<close>

record connection =
  kind :: backend
  database :: string
  db_handle :: "nat option"
  db_args :: conn_args
  last_use_time :: real
  max_idle_time :: real

text \<open>
  One thread's view of the program state: the connection objects (an address is an index
  into \<open>heap\<close>), \<open>dbconns.databases\<close> (\<open>None\<close> until the attribute is set), the entries
  of \<open>PostgresConnection.threads\<close> and \<open>MysqlConnection.threads\<close> under this thread's
  ident, the number of clock readings, and the events so far. Dicts keep insertion order.
\<close>

record world =
  heap :: "connection list"
  databases :: "(string \<times> nat) list option"
  pg_threads :: "(string \<times> nat) list"
  mysql_threads :: "(string \<times> nat) list"
  ticks :: nat
  events :: "event list"

definition now :: "env \<Rightarrow> world \<Rightarrow> real \<times> world" where
  "now e w = (clock e (ticks w), w\<lparr>ticks := Suc (ticks w)\<rparr>)"

definition emit :: "event \<Rightarrow> world \<Rightarrow> world" where
  "emit ev w = w\<lparr>events := events w @ [ev]\<rparr>"

definition close :: "connection \<Rightarrow> world \<Rightarrow> connection \<times> world" where
  "close self w =
     (case db_handle self of
        None \<Rightarrow> (self, w)
      | Some h \<Rightarrow> (self\<lparr>db_handle := None\<rparr>, emit (CloseHandle h) w))"

text \<open>\<open>row[0]\<close> of \<open>cursor.fetchone()\<close>, with the driver's and Python's failures.\<close>

definition fetchone_first :: "cursor \<Rightarrow> error + val" where
  "fetchone_first cur =
     (case description cur of
        None \<Rightarrow> Inl DatabaseError
      | Some _ \<Rightarrow>
          (case fetched cur of
             [] \<Rightarrow> Inl TypeError
           | r # _ \<Rightarrow> (case r of [] \<Rightarrow> Inl IndexError | v # _ \<Rightarrow> Inr v)))"

text \<open>
  A \<open>Row\<close> (or a subclass named by \<open>cls\<close>): a dict, here its items in insertion order
  and the class it was built as.
\<close>

record row =
  row_cls :: string
  row_items :: "(string \<times> val) list"

fun dict_set :: "('k \<times> 'v) list \<Rightarrow> 'k \<Rightarrow> 'v \<Rightarrow> ('k \<times> 'v) list" where
  "dict_set [] k v = [(k, v)]"
| "dict_set ((k', v') # d) k v = (if k' = k then (k, v) # d else (k', v') # dict_set d k v)"

definition dict_of :: "('k \<times> 'v) list \<Rightarrow> ('k \<times> 'v) list" where
  "dict_of ps = foldl (\<lambda>d (k, v). dict_set d k v) [] ps"

definition make_row :: "string option \<Rightarrow> string list \<Rightarrow> val list \<Rightarrow> row" where
  "make_row cls column_names r =
     \<lparr>row_cls = (case cls of None \<Rightarrow> ''Row'' | Some c \<Rightarrow> c),
      row_items = dict_of (zip column_names r)\<rparr>"

section \<open>PostgresConnection\<close>

definition pg_reconnect ::
  "env \<Rightarrow> connection \<Rightarrow> world \<Rightarrow> (error + unit) \<times> connection \<times> world" where
  "pg_reconnect e self w =
     (let (self1, w1) = close self w;
          w2 = emit (Connect (db_args self1)) w1
      in case driver_connect e (events w1) (db_args self1) of
           Inl err \<Rightarrow> (Inl err, self1, w2)
         | Inr h \<Rightarrow> (Inr (), self1\<lparr>db_handle := Some h\<rparr>, w2))"

definition idle_too_long :: "env \<Rightarrow> connection \<Rightarrow> world \<Rightarrow> bool \<times> world" where
  "idle_too_long e self w =
     (if db_handle self = None then (True, w)
      else let (t, w1) = now e w in (t - last_use_time self > max_idle_time self, w1))"

definition pg__ensure_connected ::
  "env \<Rightarrow> connection \<Rightarrow> world \<Rightarrow> (error + unit) \<times> connection \<times> world" where
  "pg__ensure_connected e self w =
     (let (stale, w1) = idle_too_long e self w
      in if stale then
           (case pg_reconnect e self w1 of
              (Inl err, self2, w2) \<Rightarrow> (Inl err, self2, w2)
            | (Inr _, self2, w2) \<Rightarrow>
                (let (t, w3) = now e w2 in (Inr (), self2\<lparr>last_use_time := t\<rparr>, w3)))
         else (let (t, w3) = now e w1 in (Inr (), self\<lparr>last_use_time := t\<rparr>, w3)))"

definition pg__cursor ::
  "env \<Rightarrow> connection \<Rightarrow> world \<Rightarrow> (error + nat) \<times> connection \<times> world" where
  "pg__cursor e self w =
     (case pg__ensure_connected e self w of
        (Inl err, self1, w1) \<Rightarrow> (Inl err, self1, w1)
      | (Inr _, self1, w1) \<Rightarrow>
          (case db_handle self1 of
             None \<Rightarrow> (Inl (AttributeError ''cursor''), self1, w1)
           | Some h \<Rightarrow> (Inr h, self1, w1)))"

definition pg_rollback :: "connection \<Rightarrow> world \<Rightarrow> world" where
  "pg_rollback self w = (case db_handle self of None \<Rightarrow> w | Some h \<Rightarrow> emit (Rollback h) w)"

text \<open>
  \<open>_execute\<close>: the cursor \<open>h\<close> runs the statement, then \<open>self._db.commit()\<close>; the result
  is the cursor as the statement left it.
\<close>

definition pg__execute ::
  "env \<Rightarrow> connection \<Rightarrow> nat \<Rightarrow> string \<Rightarrow> val list \<Rightarrow> world
     \<Rightarrow> (error + cursor) \<times> connection \<times> world" where
  "pg__execute e self h query parameters w =
     (let w1 = emit (Execute h query parameters) w
      in case driver_execute e (events w) h query parameters of
           Inr cur \<Rightarrow>
             (case db_handle self of
                None \<Rightarrow> (Inl (AttributeError ''commit''), self, w1)
              | Some h' \<Rightarrow> (Inr cur, self, emit (Commit h') w1))
         | Inl err \<Rightarrow>
             (if err = OperationalError then
                (let (self1, w2) = close self (emit (Log ''error'' ''Error connecting to PostgreSQL'') w1)
                 in (Inl err, self1, w2))
              else if err = DatabaseError then
                (Inl err, self,
                 pg_rollback self
                   (emit (Log ''error''
                      ''General Error at PostgreSQL - rollback transaction and carry on!'') w1))
              else (Inl err, self, w1)))"

definition pg_query ::
  "env \<Rightarrow> connection \<Rightarrow> string \<Rightarrow> val list \<Rightarrow> string option \<Rightarrow> world
     \<Rightarrow> (error + row list) \<times> connection \<times> world" where
  "pg_query e self query parameters cls w =
     (case pg__cursor e self w of
        (Inl err, self1, w1) \<Rightarrow> (Inl err, self1, w1)
      | (Inr h, self1, w1) \<Rightarrow>
          (case pg__execute e self1 h query parameters w1 of
             (Inl err, self2, w2) \<Rightarrow> (Inl err, self2, emit (CursorClose h) w2)
           | (Inr cur, self2, w2) \<Rightarrow>
               (case description cur of
                  None \<Rightarrow> (Inl TypeError, self2, emit (CursorClose h) w2)
                | Some column_names \<Rightarrow>
                    (Inr (map (make_row cls column_names) (fetched cur)), self2,
                     emit (CursorClose h) w2))))"

definition pg_get ::
  "env \<Rightarrow> connection \<Rightarrow> string \<Rightarrow> val list \<Rightarrow> string option \<Rightarrow> world
     \<Rightarrow> (error + row option) \<times> connection \<times> world" where
  "pg_get e self query parameters cls w =
     (case pg_query e self query parameters cls w of
        (Inl err, self1, w1) \<Rightarrow> (Inl err, self1, w1)
      | (Inr rows, self1, w1) \<Rightarrow>
          (case rows of
             [] \<Rightarrow> (Inr None, self1, w1)
           | [r] \<Rightarrow> (Inr (Some r), self1, w1)
           | _ \<Rightarrow> (Inl (Exception ''Multiple rows returned for Database.get() query''), self1, w1)))"

definition pg_execute_lastrowid ::
  "env \<Rightarrow> connection \<Rightarrow> string \<Rightarrow> val list \<Rightarrow> world \<Rightarrow> (error + val) \<times> connection \<times> world" where
  "pg_execute_lastrowid e self query parameters w =
     (case pg__cursor e self w of
        (Inl err, self1, w1) \<Rightarrow> (Inl err, self1, w1)
      | (Inr h, self1, w1) \<Rightarrow>
          (case pg__execute e self1 h query parameters w1 of
             (Inl err, self2, w2) \<Rightarrow> (Inl err, self2, emit (CursorClose h) w2)
           | (Inr cur, self2, w2) \<Rightarrow>
               (if rowcount cur > 0 then (fetchone_first cur, self2, emit (CursorClose h) w2)
                else (Inr VNone, self2, emit (CursorClose h) w2))))"

definition pg_execute_rowcount ::
  "env \<Rightarrow> connection \<Rightarrow> string \<Rightarrow> val list \<Rightarrow> world \<Rightarrow> (error + val) \<times> connection \<times> world" where
  "pg_execute_rowcount e self query parameters w =
     (case pg__cursor e self w of
        (Inl err, self1, w1) \<Rightarrow> (Inl err, self1, w1)
      | (Inr h, self1, w1) \<Rightarrow>
          (case pg__execute e self1 h query parameters w1 of
             (Inl err, self2, w2) \<Rightarrow> (Inl err, self2, emit (CursorClose h) w2)
           | (Inr cur, self2, w2) \<Rightarrow> (Inr (VInt (rowcount cur)), self2, emit (CursorClose h) w2)))"

definition startswith :: "string \<Rightarrow> string \<Rightarrow> bool" where
  "startswith s p = (take (length p) s = p)"

definition pg_execute ::
  "env \<Rightarrow> connection \<Rightarrow> string \<Rightarrow> val list \<Rightarrow> world \<Rightarrow> (error + val) \<times> connection \<times> world" where
  "pg_execute e self query parameters w =
     (if startswith query ''INSERT'' then pg_execute_lastrowid e self query parameters w
      else pg_execute_rowcount e self query parameters w)"

section \<open>MysqlConnection\<close>

text \<open>
  \<open>_ensure_connected\<close>, \<open>reconnect\<close>, \<open>execute\<close>, \<open>execute_lastrowid\<close> and \<open>_cursor\<close> call
  each other: \<open>reconnect\<close> runs the init command through \<open>execute\<close>, which asks
  \<open>_ensure_connected\<close> again. The recursion is bounded by fuel on \<open>_ensure_connected\<close>;
  \<open>None\<close> says the fuel ran out. The functions named \<open>_with\<close> take the
  \<open>_ensure_connected\<close> they call as an argument.
\<close>

type_synonym 'a my_run = "((error + 'a) \<times> connection \<times> world) option"

definition my__cursor_with ::
  "(connection \<Rightarrow> world \<Rightarrow> unit my_run) \<Rightarrow> connection \<Rightarrow> world \<Rightarrow> nat my_run" where
  "my__cursor_with ensure self w =
     (case ensure self w of
        None \<Rightarrow> None
      | Some (Inl err, self1, w1) \<Rightarrow> Some (Inl err, self1, w1)
      | Some (Inr _, self1, w1) \<Rightarrow>
          (case db_handle self1 of
             None \<Rightarrow> Some (Inl (AttributeError ''cursor''), self1, w1)
           | Some h \<Rightarrow> Some (Inr h, self1, w1)))"

definition my__execute ::
  "env \<Rightarrow> connection \<Rightarrow> nat \<Rightarrow> string \<Rightarrow> val list \<Rightarrow> world
     \<Rightarrow> (error + cursor) \<times> connection \<times> world" where
  "my__execute e self h query parameters w =
     (let w1 = emit (Execute h query parameters) w
      in case driver_execute e (events w) h query parameters of
           Inr cur \<Rightarrow> (Inr cur, self, w1)
         | Inl err \<Rightarrow>
             (if err = OperationalError then
                (let (self1, w2) = close self (emit (Log ''error'' ''Error connecting to MySQL'') w1)
                 in (Inl err, self1, w2))
              else (Inl err, self, w1)))"

definition my_execute_lastrowid_with ::
  "(connection \<Rightarrow> world \<Rightarrow> unit my_run) \<Rightarrow> env \<Rightarrow> connection \<Rightarrow> string \<Rightarrow> val list \<Rightarrow> world
     \<Rightarrow> val my_run" where
  "my_execute_lastrowid_with ensure e self query parameters w =
     (case my__cursor_with ensure self w of
        None \<Rightarrow> None
      | Some (Inl err, self1, w1) \<Rightarrow> Some (Inl err, self1, w1)
      | Some (Inr h, self1, w1) \<Rightarrow>
          (case my__execute e self1 h query parameters w1 of
             (Inl err, self2, w2) \<Rightarrow> Some (Inl err, self2, emit (CursorClose h) w2)
           | (Inr cur, self2, w2) \<Rightarrow> Some (Inr (lastrowid cur), self2, emit (CursorClose h) w2)))"

definition db_init_command :: string where
  "db_init_command = ''SET time_zone = \"+0:00\"''"

definition my_reconnect_with ::
  "(connection \<Rightarrow> world \<Rightarrow> unit my_run) \<Rightarrow> env \<Rightarrow> connection \<Rightarrow> world \<Rightarrow> unit my_run" where
  "my_reconnect_with ensure e self w =
     (let (self1, w1) = close self w;
          w2 = emit (Connect (db_args self1)) w1
      in case driver_connect e (events w1) (db_args self1) of
           Inl err \<Rightarrow> Some (Inl err, self1, w2)
         | Inr h \<Rightarrow>
             (case my_execute_lastrowid_with ensure e (self1\<lparr>db_handle := Some h\<rparr>)
                     db_init_command [] w2 of
                None \<Rightarrow> None
              | Some (Inl err, self2, w3) \<Rightarrow> Some (Inl err, self2, w3)
              | Some (Inr _, self2, w3) \<Rightarrow> Some (Inr (), self2, w3)))"

primrec my__ensure_connected :: "nat \<Rightarrow> env \<Rightarrow> connection \<Rightarrow> world \<Rightarrow> unit my_run" where
  "my__ensure_connected 0 e self w = None"
| "my__ensure_connected (Suc n) e self w =
     (let (stale, w1) = idle_too_long e self w
      in if stale then
           (let (t, w2) = now e w1
            in my_reconnect_with (my__ensure_connected n e) e (self\<lparr>last_use_time := t\<rparr>) w2)
         else Some (Inr (), self, w1))"

definition my__cursor :: "nat \<Rightarrow> env \<Rightarrow> connection \<Rightarrow> world \<Rightarrow> nat my_run" where
  "my__cursor n e self w = my__cursor_with (my__ensure_connected n e) self w"

definition my_reconnect :: "nat \<Rightarrow> env \<Rightarrow> connection \<Rightarrow> world \<Rightarrow> unit my_run" where
  "my_reconnect n e self w = my_reconnect_with (my__ensure_connected n e) e self w"

definition my_execute_lastrowid ::
  "nat \<Rightarrow> env \<Rightarrow> connection \<Rightarrow> string \<Rightarrow> val list \<Rightarrow> world \<Rightarrow> val my_run" where
  "my_execute_lastrowid n e self query parameters w =
     my_execute_lastrowid_with (my__ensure_connected n e) e self query parameters w"

definition my_execute_rowcount ::
  "nat \<Rightarrow> env \<Rightarrow> connection \<Rightarrow> string \<Rightarrow> val list \<Rightarrow> world \<Rightarrow> val my_run" where
  "my_execute_rowcount n e self query parameters w =
     (case my__cursor n e self w of
        None \<Rightarrow> None
      | Some (Inl err, self1, w1) \<Rightarrow> Some (Inl err, self1, w1)
      | Some (Inr h, self1, w1) \<Rightarrow>
          (case my__execute e self1 h query parameters w1 of
             (Inl err, self2, w2) \<Rightarrow> Some (Inl err, self2, emit (CursorClose h) w2)
           | (Inr cur, self2, w2) \<Rightarrow>
               Some (Inr (VInt (rowcount cur)), self2, emit (CursorClose h) w2)))"

text \<open>
  \<open>execute\<close>: "for historical compatibility execute() must return lastrowid", whatever the
  statement.
\<close>

definition my_execute ::
  "nat \<Rightarrow> env \<Rightarrow> connection \<Rightarrow> string \<Rightarrow> val list \<Rightarrow> world \<Rightarrow> val my_run" where
  "my_execute n e self query parameters w = my_execute_lastrowid n e self query parameters w"

definition my_query ::
  "nat \<Rightarrow> env \<Rightarrow> connection \<Rightarrow> string \<Rightarrow> val list \<Rightarrow> string option \<Rightarrow> world
     \<Rightarrow> (row list) my_run" where
  "my_query n e self query parameters cls w =
     (case my__cursor n e self w of
        None \<Rightarrow> None
      | Some (Inl err, self1, w1) \<Rightarrow> Some (Inl err, self1, w1)
      | Some (Inr h, self1, w1) \<Rightarrow>
          (case my__execute e self1 h query parameters w1 of
             (Inl err, self2, w2) \<Rightarrow> Some (Inl err, self2, emit (CursorClose h) w2)
           | (Inr cur, self2, w2) \<Rightarrow>
               (case description cur of
                  None \<Rightarrow> Some (Inl TypeError, self2, emit (CursorClose h) w2)
                | Some column_names \<Rightarrow>
                    Some (Inr (map (make_row cls column_names) (fetched cur)), self2,
                          emit (CursorClose h) w2))))"

text \<open>
  \<open>get\<close> queries without \<open>cls\<close> and converts the single row afterwards:
  \<open>if row and kwargs.get('cls'): row = kwargs['cls'](row)\<close>; an empty row is falsy.
\<close>

definition rewrap :: "string option \<Rightarrow> row \<Rightarrow> row" where
  "rewrap cls r =
     (case cls of
        None \<Rightarrow> r
      | Some c \<Rightarrow> (if row_items r \<noteq> [] then \<lparr>row_cls = c, row_items = row_items r\<rparr> else r))"

definition my_get ::
  "nat \<Rightarrow> env \<Rightarrow> connection \<Rightarrow> string \<Rightarrow> val list \<Rightarrow> string option \<Rightarrow> world
     \<Rightarrow> (row option) my_run" where
  "my_get n e self query parameters cls w =
     (case my_query n e self query parameters None w of
        None \<Rightarrow> None
      | Some (Inl err, self1, w1) \<Rightarrow> Some (Inl err, self1, w1)
      | Some (Inr rows, self1, w1) \<Rightarrow>
          (case rows of
             [] \<Rightarrow> Some (Inr None, self1, w1)
           | [r] \<Rightarrow> Some (Inr (Some (rewrap cls r)), self1, w1)
           | _ \<Rightarrow>
               Some (Inl (Exception ''Multiple rows returned for Database.get() query''),
                     self1, w1)))"

text \<open>The exception \<open>get\<close> raises on more than one row.\<close>

definition multiple_rows :: error where
  "multiple_rows = Exception ''Multiple rows returned for Database.get() query''"

section \<open>Connecting and the per-thread registry\<close>

text \<open>
  The constructors. \<open>__init__\<close> reads the clock, tries \<open>reconnect\<close> and logs a failure
  instead of raising; \<open>max_idle_time\<close> is the default \<open>7 * 3600\<close>.
\<close>

definition pg_init ::
  "env \<Rightarrow> string option \<Rightarrow> int \<Rightarrow> string \<Rightarrow> string option \<Rightarrow> string option \<Rightarrow> world
     \<Rightarrow> connection \<times> world" where
  "pg_init e hostname port dbname username password w =
     (let (t, w1) = now e w;
          self = \<lparr>kind = Postgres, database = dbname, db_handle = None,
                  db_args = PgArgs port dbname hostname username password,
                  last_use_time = t, max_idle_time = 7 * 3600\<rparr>
      in case pg_reconnect e self w1 of
           (Inl err, self1, w2) \<Rightarrow> (self1, emit (Log ''error'' ''Cannot connect to PostgreSQL'') w2)
         | (Inr _, self1, w2) \<Rightarrow> (self1, w2))"

text \<open>
  \<open>PostgresConnection.connect()\<close> as \<open>db\<close> calls it, with no keyword argument: the
  settings come from \<open>options\<close> and an existing connection of this thread is returned.
\<close>

definition pg_connect :: "env \<Rightarrow> world \<Rightarrow> nat \<times> world" where
  "pg_connect e w =
     (let cfg = opts e
      in case map_of (pg_threads w) (pg_database cfg) of
           Some a \<Rightarrow> (a, w)
         | None \<Rightarrow>
             (let (conn, w1) = pg_init e (pg_hostname cfg) (pg_port cfg) (pg_database cfg)
                                 (pg_username cfg) (pg_password cfg) w;
                  a = length (heap w1)
              in (a, w1\<lparr>heap := heap w1 @ [conn],
                        pg_threads := dict_set (pg_threads w1) (pg_database cfg) a\<rparr>)))"

fun split_on :: "char \<Rightarrow> string \<Rightarrow> string list" where
  "split_on c [] = [[]]"
| "split_on c (x # xs) =
     (if x = c then [] # split_on c xs
      else (case split_on c xs of [] \<Rightarrow> [[x]] | p # ps \<Rightarrow> (x # p) # ps))"

text \<open>"We accept a path to a MySQL socket file or a host(:port) string".\<close>

definition my_endpoint :: "env \<Rightarrow> string \<Rightarrow> error + endpoint" where
  "my_endpoint e host =
     (if CHR ''/'' \<in> set host then Inr (UnixSocket host)
      else (case split_on CHR '':'' host of
              [h, p] \<Rightarrow> (case py_int e p of None \<Rightarrow> Inl ValueError | Some port \<Rightarrow> Inr (HostPort h port))
            | _ \<Rightarrow> Inr (HostPort host 3306)))"

definition my_init ::
  "nat \<Rightarrow> env \<Rightarrow> string \<Rightarrow> string \<Rightarrow> string option \<Rightarrow> string option \<Rightarrow> world
     \<Rightarrow> ((error + connection) \<times> world) option" where
  "my_init n e host dbname user password w =
     (case my_endpoint e host of
        Inl err \<Rightarrow> Some (Inl err, w)
      | Inr ep \<Rightarrow>
          (let (t, w1) = now e w;
               self = \<lparr>kind = Mysql, database = dbname, db_handle = None,
                       db_args = MyArgs dbname user password ep,
                       last_use_time = t, max_idle_time = 7 * 3600\<rparr>
           in case my_reconnect n e self w1 of
                None \<Rightarrow> None
              | Some (Inl err, self1, w2) \<Rightarrow>
                  Some (Inr self1, emit (Log ''error'' ''Cannot connect to MySQL'') w2)
              | Some (Inr _, self1, w2) \<Rightarrow> Some (Inr self1, w2)))"

text \<open>\<open>MysqlConnection.connect()\<close> as \<open>db\<close> calls it, with no keyword argument.\<close>

definition my_connect :: "nat \<Rightarrow> env \<Rightarrow> world \<Rightarrow> ((error + nat) \<times> world) option" where
  "my_connect n e w =
     (let cfg = opts e;
          target = mysql_schema cfg @ ''@'' @ mysql_host cfg
      in case map_of (mysql_threads w) target of
           Some a \<Rightarrow> Some (Inr a, w)
         | None \<Rightarrow>
             (case my_init n e (mysql_host cfg) (mysql_schema cfg) (mysql_user cfg) (mysql_password cfg) w of
                None \<Rightarrow> None
              | Some (Inl err, w1) \<Rightarrow> Some (Inl err, w1)
              | Some (Inr conn, w1) \<Rightarrow>
                  (case my_execute n e conn ''SET NAMES utf8mb4 COLLATE utf8mb4_unicode_ci'' [] w1 of
                     None \<Rightarrow> None
                   | Some (Inl err, conn1, w2) \<Rightarrow> Some (Inl err, w2)
                   | Some (Inr _, conn1, w2) \<Rightarrow>
                       (let a = length (heap w2)
                        in Some (Inr a, w2\<lparr>heap := heap w2 @ [conn1],
                                           mysql_threads := dict_set (mysql_threads w2) target a\<rparr>)))))"

text \<open>
  \<open>db(use_schema=None)\<close>, statement by statement: the \<open>databases\<close> attribute is created,
  each importable backend whose configured schema is not cached yet is connected and
  becomes \<open>use_schema\<close>, a falsy \<open>use_schema\<close> defaults to the only cached key, and the
  result is \<open>dbconns.databases[use_schema]\<close>. The result is the address of the connection.
\<close>

definition cached :: "world \<Rightarrow> (string \<times> nat) list" where
  "cached w = (case databases w of None \<Rightarrow> [] | Some d \<Rightarrow> d)"

definition db_pg_step :: "env \<Rightarrow> string option \<Rightarrow> world \<Rightarrow> string option \<times> world" where
  "db_pg_step e use_schema w =
     (if pgsql_available e \<and> pg_database (opts e) \<notin> set (map fst (cached w)) then
        (let (a, w1) = pg_connect e w
         in (Some (pg_database (opts e)),
             w1\<lparr>databases := Some (dict_set (cached w1) (pg_database (opts e)) a)\<rparr>))
      else (use_schema, w))"

definition db_mysql_step ::
  "nat \<Rightarrow> env \<Rightarrow> string option \<Rightarrow> world \<Rightarrow> ((error + string option) \<times> world) option" where
  "db_mysql_step n e use_schema w =
     (if mysql_available e \<and> mysql_schema (opts e) \<notin> set (map fst (cached w)) then
        (case my_connect n e w of
           None \<Rightarrow> None
         | Some (Inl err, w1) \<Rightarrow> Some (Inl err, w1)
         | Some (Inr a, w1) \<Rightarrow>
             Some (Inr (Some (mysql_schema (opts e))),
                   w1\<lparr>databases := Some (dict_set (cached w1) (mysql_schema (opts e)) a)\<rparr>))
      else Some (Inr use_schema, w))"

definition falsy :: "string option \<Rightarrow> bool" where
  "falsy s = (s = None \<or> s = Some [])"

definition db_lookup :: "string option \<Rightarrow> world \<Rightarrow> error + nat" where
  "db_lookup use_schema w =
     (let use = (if falsy use_schema \<and> length (cached w) = 1 then Some (fst (hd (cached w)))
                 else use_schema)
      in case use of
           None \<Rightarrow> Inl (KeyError None)
         | Some k \<Rightarrow> (case map_of (cached w) k of None \<Rightarrow> Inl (KeyError (Some k)) | Some a \<Rightarrow> Inr a))"

definition db :: "nat \<Rightarrow> env \<Rightarrow> string option \<Rightarrow> world \<Rightarrow> ((error + nat) \<times> world) option" where
  "db n e use_schema w =
     (let w0 = w\<lparr>databases := Some (cached w)\<rparr>;
          (use1, w1) = db_pg_step e use_schema w0
      in case db_mysql_step n e use1 w1 of
           None \<Rightarrow> None
         | Some (Inl err, w2) \<Rightarrow> Some (Inl err, w2)
         | Some (Inr use2, w2) \<Rightarrow> Some (db_lookup use2 w2, w2))"

text \<open>
  Calling a method on the connection at an address: the object is read from the heap and
  written back. \<open>Dangling\<close> (see \<open>error\<close>) answers an address with no object.
\<close>

definition conn_execute ::
  "nat \<Rightarrow> env \<Rightarrow> nat \<Rightarrow> string \<Rightarrow> val list \<Rightarrow> world \<Rightarrow> ((error + val) \<times> world) option" where
  "conn_execute n e a query parameters w =
     (if a < length (heap w) then
        (case kind (heap w ! a) of
           Postgres \<Rightarrow>
             (case pg_execute e (heap w ! a) query parameters w of
                (r, self1, w1) \<Rightarrow> Some (r, w1\<lparr>heap := (heap w1)[a := self1]\<rparr>))
         | Mysql \<Rightarrow>
             (case my_execute n e (heap w ! a) query parameters w of
                None \<Rightarrow> None
              | Some (r, self1, w1) \<Rightarrow> Some (r, w1\<lparr>heap := (heap w1)[a := self1]\<rparr>)))
      else Some (Inl Dangling, w))"

definition conn_execute_rowcount ::
  "nat \<Rightarrow> env \<Rightarrow> nat \<Rightarrow> string \<Rightarrow> val list \<Rightarrow> world \<Rightarrow> ((error + val) \<times> world) option" where
  "conn_execute_rowcount n e a query parameters w =
     (if a < length (heap w) then
        (case kind (heap w ! a) of
           Postgres \<Rightarrow>
             (case pg_execute_rowcount e (heap w ! a) query parameters w of
                (r, self1, w1) \<Rightarrow> Some (r, w1\<lparr>heap := (heap w1)[a := self1]\<rparr>))
         | Mysql \<Rightarrow>
             (case my_execute_rowcount n e (heap w ! a) query parameters w of
                None \<Rightarrow> None
              | Some (r, self1, w1) \<Rightarrow> Some (r, w1\<lparr>heap := (heap w1)[a := self1]\<rparr>)))
      else Some (Inl Dangling, w))"


section \<open>Row and the mini-ORM\<close>

text \<open>
  \<open>Row.__getattr__\<close> over \<open>self[name]\<close>. Python calls \<open>__getattr__\<close> only after the normal
  attribute lookup has failed, so \<open>getattribute\<close> first looks among the names the class
  provides: the methods the source defines on \<open>Row\<close>, and \<open>inherited\<close>, whatever else the
  lookup finds (the attributes of \<open>dict\<close> such as \<open>keys\<close> or \<open>items\<close>, a subclass's
  \<open>table_name\<close> and \<open>id_column\<close>).
\<close>

definition row_getitem :: "row \<Rightarrow> string \<Rightarrow> error + val" where
  "row_getitem r name =
     (case map_of (row_items r) name of None \<Rightarrow> Inl (KeyError (Some name)) | Some v \<Rightarrow> Inr v)"

definition Row_getattr :: "row \<Rightarrow> string \<Rightarrow> error + val" where
  "Row_getattr r name =
     (case row_getitem r name of
        Inr v \<Rightarrow> Inr v
      | Inl (KeyError _) \<Rightarrow> Inl (AttributeError name)
      | Inl err \<Rightarrow> Inl err)"

definition Row_methods :: "string list" where
  "Row_methods =
     [''logw'', ''scan_id'', ''map_items'', ''map_id'', ''get_id'', ''kva_split'',
      ''insert_columns'', ''update_columns'']"

datatype attr = Column val | ClassAttribute string

definition getattribute :: "string list \<Rightarrow> row \<Rightarrow> string \<Rightarrow> error + attr" where
  "getattribute inherited r name =
     (if name \<in> set Row_methods \<or> name \<in> set inherited then Inr (ClassAttribute name)
      else (case Row_getattr r name of Inl err \<Rightarrow> Inl err | Inr v \<Rightarrow> Inr (Column v)))"

text \<open>
  A string in the \<open>values\<close> list of \<open>kva_split\<close>: a plain \<open>str\<close> or a \<open>Literal\<close>.
\<close>

datatype pystr = Str string | Literal string

fun text_of :: "pystr \<Rightarrow> string" where
  "text_of (Str s) = s"
| "text_of (Literal s) = s"

text \<open>
  \<open>kva_split\<close>: the loop over \<open>columns.items()\<close>, appending to \<open>keys\<close>, \<open>values\<close> and
  \<open>args\<close>. A changeset is the dict's items in insertion order; its keys are strings.
\<close>

definition kva_step ::
  "string list \<times> pystr list \<times> val list \<Rightarrow> string \<times> val
     \<Rightarrow> string list \<times> pystr list \<times> val list" where
  "kva_step acc item =
     (case acc of (keys, values, args) \<Rightarrow>
        (case item of (key, value) \<Rightarrow>
           (case value of
              VLiteral s \<Rightarrow> (keys @ [key], values @ [Literal s], args)
            | _ \<Rightarrow> (keys @ [key], values @ [Str ''%s''], args @ [value]))))"

definition kva_split :: "(string \<times> val) list \<Rightarrow> string list \<times> pystr list \<times> val list" where
  "kva_split columns = foldl kva_step ([], [], []) columns"

text \<open>
  For stating what \<open>kva_split\<close> computes: the test \<open>isinstance(value, Literal)\<close> and
  the fragment a value contributes.
\<close>

definition isinstance_Literal :: "val \<Rightarrow> bool" where
  "isinstance_Literal v = (case v of VLiteral _ \<Rightarrow> True | _ \<Rightarrow> False)"

definition fragment_of :: "val \<Rightarrow> pystr" where
  "fragment_of v = (case v of VLiteral s \<Rightarrow> Literal s | _ \<Rightarrow> Str ''%s'')"

fun join :: "string \<Rightarrow> string list \<Rightarrow> string" where
  "join sep [] = []"
| "join sep [x] = x"
| "join sep (x # y # ys) = x @ sep @ join sep (y # ys)"

text \<open>
  \<open>template % mapping\<close> for the conversions the source's templates use: \<open>%(name)s\<close> and
  \<open>%%\<close>. An unfinished conversion is Python's ValueError and a missing name its KeyError;
  any other conversion is answered \<open>FormatNotModelled\<close>.
\<close>

datatype fmt_state = Plain | Percent | Key string | Conv string

fun percent_format :: "fmt_state \<Rightarrow> string \<Rightarrow> (string \<times> string) list \<Rightarrow> error + string" where
  "percent_format st [] d = (if st = Plain then Inr [] else Inl ValueError)"
| "percent_format Plain (c # cs) d =
     (if c = CHR ''%'' then percent_format Percent cs d
      else (case percent_format Plain cs d of Inl err \<Rightarrow> Inl err | Inr out \<Rightarrow> Inr (c # out)))"
| "percent_format Percent (c # cs) d =
     (if c = CHR ''%'' then
        (case percent_format Plain cs d of Inl err \<Rightarrow> Inl err | Inr out \<Rightarrow> Inr (c # out))
      else if c = CHR ''('' then percent_format (Key []) cs d
      else Inl FormatNotModelled)"
| "percent_format (Key k) (c # cs) d =
     (if c = CHR '')'' then percent_format (Conv k) cs d
      else if c = CHR ''('' then Inl FormatNotModelled
      else percent_format (Key (k @ [c])) cs d)"
| "percent_format (Conv k) (c # cs) d =
     (if c = CHR ''s'' then
        (case map_of d k of
           None \<Rightarrow> Inl (KeyError (Some k))
         | Some v \<Rightarrow>
             (case percent_format Plain cs d of Inl err \<Rightarrow> Inl err | Inr out \<Rightarrow> Inr (v @ out)))
      else Inl FormatNotModelled)"

text \<open>A \<open>Row\<close> subclass: the class attributes the mini-ORM reads.\<close>

record row_class =
  class_name :: string
  table_name :: string
  id_column :: string

definition insert_sql_txt :: string where
  "insert_sql_txt = ''INSERT INTO %(db_table)s (%(keys)s) VALUES (%(values)s)''"

definition insert_columns ::
  "nat \<Rightarrow> env \<Rightarrow> row_class \<Rightarrow> string \<Rightarrow> (string \<times> val) list \<Rightarrow> world
     \<Rightarrow> ((error + val) \<times> world) option" where
  "insert_columns n e cls sql_txt columns w =
     (let db_table = table_name cls;
          (keys, values, args) = kva_split columns
      in case db n e None w of
           None \<Rightarrow> None
         | Some (Inl err, w1) \<Rightarrow> Some (Inl err, w1)
         | Some (Inr use_db, w1) \<Rightarrow>
             (let w2 = emit (Log ''warning'' ''USE DB'') w1;
                  sql_txt1 = (if use_db < length (heap w2) \<and> kind (heap w2 ! use_db) = Postgres
                              then sql_txt @ '' RETURNING '' @ id_column cls else sql_txt)
              in case percent_format Plain sql_txt1
                        [(''db_table'', db_table), (''keys'', join '', '' keys),
                         (''values'', join '', '' (map text_of values))] of
                   Inl err \<Rightarrow> Some (Inl err, w2)
                 | Inr sql \<Rightarrow> conn_execute n e use_db sql args w2))"

definition update_columns ::
  "nat \<Rightarrow> env \<Rightarrow> row_class \<Rightarrow> (string \<times> val) list \<Rightarrow> (string \<times> val) list \<Rightarrow> world
     \<Rightarrow> ((error + val) \<times> world) option" where
  "update_columns n e cls columns where_cols w =
     (if columns = [] then
        Some (Inr VNone, emit (Log ''debug'' ''Nothing to update. Skipping query'') w)
      else
        (let db_table = table_name cls;
             (keys, values, args) = kva_split columns;
             set_clause = join '', '' (map (\<lambda>(key, value). key @ ''='' @ text_of value) (zip keys values));
             (keys2, values2, args2) = kva_split where_cols;
             where_clause =
               join '' AND '' (map (\<lambda>(key, value). key @ ''='' @ text_of value) (zip keys2 values2));
             sql = ''UPDATE '' @ db_table @ '' SET '' @ set_clause @ '' WHERE '' @ where_clause
         in case db n e None w of
              None \<Rightarrow> None
            | Some (Inl err, w1) \<Rightarrow> Some (Inl err, w1)
            | Some (Inr a, w1) \<Rightarrow> conn_execute_rowcount n e a sql (args @ args2) w1))"

text \<open>
  The statement \<open>insert_columns\<close> is to compose from the default template, in the spec's
  words: \<open>INSERT INTO table (cols) VALUES (fragments)\<close>, with \<open>RETURNING id_column\<close>
  appended for the Postgres backend only.
\<close>

definition insert_statement :: "backend \<Rightarrow> row_class \<Rightarrow> (string \<times> val) list \<Rightarrow> string" where
  "insert_statement k cls columns =
     ''INSERT INTO '' @ table_name cls
       @ '' ('' @ join '', '' (fst (kva_split columns))
       @ '') VALUES ('' @ join '', '' (map text_of (fst (snd (kva_split columns)))) @  '')''
       @ (if k = Postgres then '' RETURNING '' @ id_column cls else [])"

section \<open>SqlDiff: the migration ledger\<close>




text \<open>
  Modelled from the spec: the ordering token of a ledger entry, "an embedded
  three-character ordering token inside the name (positions 5-7, ascending)". The SQL
  server that evaluates \<open>ORDER BY SUBSTRING(sql_diff_name from 5 for 3) ASC\<close> is not under
  src/: the source only sends the statement and hands back the rows it is given.
  Positions count from 1 (a shorter name gives a shorter token), and tokens are compared
  character by character, by character code. \<open>in_token_order\<close> says that fetched rows
  stand in ascending order of the token of their \<open>sql_diff_name\<close> column; rows with equal
  tokens may stand in any order.
\<close>

definition substring_from_for :: "string \<Rightarrow> nat \<Rightarrow> nat \<Rightarrow> string" where
  "substring_from_for s start len = take len (drop (start - 1) s)"

definition ordering_token :: "string \<Rightarrow> string" where
  "ordering_token name = substring_from_for name 5 3"



section \<open>Concrete inputs\<close>

text \<open>
  An environment with both drivers importable, a clock that starts at 100 and advances by
  one per reading, drivers that always connect (the new handle is the number of events so
  far) and a cursor that reports three affected rows, last-inserted id 0 and one result row.
\<close>

definition example_options :: options where
  "example_options =
     \<lparr>pg_database = ''alpha'', pg_hostname = None, pg_username = None,
      pg_password = None, pg_port = 5432, mysql_host = ''localhost'',
      mysql_schema = ''beta'', mysql_user = None, mysql_password = None\<rparr>"

definition example_cursor :: cursor where
  "example_cursor =
     \<lparr>rowcount = 3, lastrowid = VInt 0, description = Some [''id'', ''name''],
      fetched = [[VInt 7, VStr ''foo'']]\<rparr>"

definition example_env :: env where
  "example_env =
     \<lparr>pgsql_available = True, mysql_available = True,
      opts = example_options,
      clock = (\<lambda>n. 100 + real n),
      driver_connect = (\<lambda>evs args. Inr (length evs)),
      driver_execute = (\<lambda>evs h q ps. Inr example_cursor),
      py_int = (\<lambda>s. None)\<rparr>"

definition example_world :: world where
  "example_world =
     \<lparr>heap = [], databases = None, pg_threads = [], mysql_threads = [], ticks = 0, events = []\<rparr>"

definition example_pg :: connection where
  "example_pg =
     \<lparr>kind = Postgres, database = ''alpha'', db_handle = Some 1,
      db_args = PgArgs 5432 ''alpha'' None None None, last_use_time = 0,
      max_idle_time = 25200\<rparr>"

definition example_my :: connection where
  "example_my =
     \<lparr>kind = Mysql, database = ''beta'', db_handle = Some 2,
      db_args = MyArgs ''beta'' None None (HostPort ''localhost'' 3306), last_use_time = 0,
      max_idle_time = 25200\<rparr>"

text \<open>
  The same environment with a clock that reads 20000, 30000, 40000, ...: two uses of a
  connection lie 10000 seconds apart.
\<close>

definition drift_env :: env where
  "drift_env = example_env\<lparr>clock := (\<lambda>n. 20000 + 10000 * real n)\<rparr>"

text \<open>
  Only the Postgres driver importable; a thread whose registry holds the one Postgres
  connection; a thread whose registry holds both connections.
\<close>

definition pg_only_env :: env where
  "pg_only_env = example_env\<lparr>mysql_available := False\<rparr>"

definition one_cached_world :: world where
  "one_cached_world =
     \<lparr>heap = [example_pg], databases = Some [(''alpha'', 0)], pg_threads = [(''alpha'', 0)],
      mysql_threads = [], ticks = 0, events = []\<rparr>"

definition two_cached_world :: world where
  "two_cached_world =
     \<lparr>heap = [example_pg, example_my], databases = Some [(''alpha'', 0), (''beta'', 1)],
      pg_threads = [(''alpha'', 0)], mysql_threads = [(''beta@localhost'', 1)], ticks = 0,
      events = []\<rparr>"

text \<open>
  Only the MySQL driver importable; a thread whose registry holds the one MySQL connection;
  a \<open>Row\<close> subclass for table \<open>widgets\<close> and a changeset with a raw literal.
\<close>

definition my_only_env :: env where
  "my_only_env = example_env\<lparr>pgsql_available := False\<rparr>"

definition one_mysql_world :: world where
  "one_mysql_world =
     \<lparr>heap = [example_my], databases = Some [(''beta'', 0)], pg_threads = [],
      mysql_threads = [(''beta@localhost'', 0)], ticks = 0, events = []\<rparr>"

definition widgets :: row_class where
  "widgets = \<lparr>class_name = ''Widget'', table_name = ''widgets'', id_column = ''widget_id''\<rparr>"

definition widget_changes :: "(string \<times> val) list" where
  "widget_changes = [(''name'', VStr ''foo''), (''updated_at'', VLiteral ''NOW()''), (''qty'', VInt 3)]"

text \<open>A row with a column named like a method.\<close>

definition example_row :: row where
  "example_row = \<lparr>row_cls = ''Row'', row_items = [(''name'', VStr ''foo''), (''map_id'', VInt 1)]\<rparr>"

text \<open>
  A driver whose cursor reports one affected row and no result set, as after an INSERT
  without a RETURNING clause.
\<close>

definition no_result_cursor :: cursor where
  "no_result_cursor = \<lparr>rowcount = 1, lastrowid = VInt 0, description = None, fetched = []\<rparr>"

definition no_result_env :: env where
  "no_result_env = example_env\<lparr>driver_execute := (\<lambda>evs h q ps. Inr no_result_cursor)\<rparr>"



section \<open>Verified properties\<close>

lemmas example_defs =
  example_options_def example_cursor_def example_env_def example_world_def example_pg_def
  example_my_def

lemmas q_defs = pg_query_def my_query_def pg__cursor_def my__cursor_def my__cursor_with_def
  pg__ensure_connected_def idle_too_long_def now_def emit_def pg__execute_def my__execute_def
  make_row_def dict_of_def

subsection \<open>PostgresConnection.execute_lastrowid\<close>

lemma pg_cursor_handle:
  "pg__cursor e self w = (Inr h, self1, w1) \<Longrightarrow> db_handle self1 = Some h"
  by (auto simp: pg__cursor_def split: prod.splits sum.splits option.splits)

text \<open>
  C10 (as amended). On the Postgres connection, once the cursor is acquired and the driver
  has run the statement, \<open>execute_lastrowid\<close> returns the first column of the first
  fetched row when the affected-row count is positive and the statement produced a result
  row to fetch (as with a RETURNING clause), and \<open>None\<close> when the count is zero.
\<close>

theorem pg_execute_lastrowid_result:
  assumes "pg__cursor e self w = (Inr h, self1, w1)"
      and "driver_execute e (events w1) h query parameters = Inr cur"
  shows "(rowcount cur > 0 \<and> description cur = Some d \<and> fetched cur = (v # vs) # rs
            \<longrightarrow> fst (pg_execute_lastrowid e self query parameters w) = Inr v)
       \<and> (rowcount cur = 0
            \<longrightarrow> fst (pg_execute_lastrowid e self query parameters w) = Inr VNone)"
  using assms pg_cursor_handle[OF assms(1)]
  by (simp add: pg_execute_lastrowid_def pg__execute_def fetchone_first_def)

theorem pg_execute_lastrowid_result_witness:
  "pg__cursor example_env example_pg example_world
     = (Inr 1, example_pg\<lparr>last_use_time := 101\<rparr>, example_world\<lparr>ticks := 2\<rparr>)
   \<and> driver_execute example_env (events (example_world\<lparr>ticks := 2\<rparr>)) 1
        ''INSERT INTO t (a) VALUES (%s) RETURNING id'' [VInt 1] = Inr example_cursor
   \<and> rowcount example_cursor > 0
   \<and> fst (pg_execute_lastrowid example_env example_pg
            ''INSERT INTO t (a) VALUES (%s) RETURNING id'' [VInt 1] example_world)
       = Inr (VInt 7)"
  using pg_execute_lastrowid_result[of example_env example_pg example_world 1
      "example_pg\<lparr>last_use_time := 101\<rparr>" "example_world\<lparr>ticks := 2\<rparr>"
      "''INSERT INTO t (a) VALUES (%s) RETURNING id''" "[VInt 1]"
      example_cursor "[''id'', ''name'']" "VInt 7" "[VStr ''foo'']" "[]"]
  by (simp add: example_defs pg__cursor_def pg__ensure_connected_def idle_too_long_def now_def)

text \<open>
  C10 as stated fails for a statement that affects a row and returns none, an INSERT
  without RETURNING: the statement is executed and committed, then \<open>fetchone()\<close> raises the
  driver's error.
\<close>

theorem pg_execute_lastrowid_no_result_counterexample:
  "rowcount no_result_cursor > 0
   \<and> driver_execute no_result_env (events (example_world\<lparr>ticks := 2\<rparr>)) 1
        ''INSERT INTO widgets (name) VALUES (%s)'' [VStr ''foo''] = Inr no_result_cursor
   \<and> pg_execute_lastrowid no_result_env example_pg
        ''INSERT INTO widgets (name) VALUES (%s)'' [VStr ''foo''] example_world
       = (Inl DatabaseError, example_pg\<lparr>last_use_time := 101\<rparr>,
          example_world\<lparr>ticks := 2,
            events := [Execute 1 ''INSERT INTO widgets (name) VALUES (%s)'' [VStr ''foo''],
                       Commit 1, CursorClose 1]\<rparr>)"
  by (simp add: pg_execute_lastrowid_def fetchone_first_def q_defs no_result_env_def
      no_result_cursor_def example_defs)

subsection \<open>get\<close>

lemma my_cursor_handle:
  "my__cursor n e self w = Some (Inr h, self1, w1) \<Longrightarrow> db_handle self1 = Some h"
  by (auto simp: my__cursor_def my__cursor_with_def split: prod.splits sum.splits option.splits)

text \<open>
  C5. Whatever \<open>query\<close> returned, \<open>get\<close> returns \<open>None\<close> for no row, the row for exactly
  one and raises the multiple-rows exception for more, on the Postgres connection and on
  the MySQL connection. The MySQL \<open>get\<close> queries without \<open>cls\<close> and hands the single row
  to \<open>cls\<close> afterwards: the same items, and the very row when no \<open>cls\<close> is given.
\<close>

theorem get_by_number_of_rows:
  "(pg_query e self query parameters cls w = (Inr rows, self1, w1) \<longrightarrow>
      (rows = [] \<longrightarrow> fst (pg_get e self query parameters cls w) = Inr None)
    \<and> (rows = [r] \<longrightarrow> fst (pg_get e self query parameters cls w) = Inr (Some r))
    \<and> (length rows > 1 \<longrightarrow> fst (pg_get e self query parameters cls w) = Inl multiple_rows))
 \<and> (my_query n e self' query parameters None w' = Some (Inr rows', self1', w1') \<longrightarrow>
      (rows' = [] \<longrightarrow> map_option fst (my_get n e self' query parameters cls w') = Some (Inr None))
    \<and> (rows' = [r'] \<longrightarrow>
          map_option fst (my_get n e self' query parameters cls w') = Some (Inr (Some (rewrap cls r')))
          \<and> row_items (rewrap cls r') = row_items r' \<and> rewrap None r' = r')
    \<and> (length rows' > 1 \<longrightarrow>
          map_option fst (my_get n e self' query parameters cls w') = Some (Inl multiple_rows)))"
  by (auto simp: pg_get_def my_get_def multiple_rows_def rewrap_def split: list.splits option.splits)

theorem get_by_number_of_rows_witness:
  "pg_query example_env example_pg ''SELECT * FROM sql_diff'' [] None example_world
     = (Inr [\<lparr>row_cls = ''Row'', row_items = [(''id'', VInt 7), (''name'', VStr ''foo'')]\<rparr>],
        example_pg\<lparr>last_use_time := 101\<rparr>,
        example_world\<lparr>ticks := 2,
           events := [Execute 1 ''SELECT * FROM sql_diff'' [], Commit 1, CursorClose 1]\<rparr>)
   \<and> fst (pg_get example_env example_pg ''SELECT * FROM sql_diff'' [] None example_world)
     = Inr (Some \<lparr>row_cls = ''Row'', row_items = [(''id'', VInt 7), (''name'', VStr ''foo'')]\<rparr>)
   \<and> my_query 1 example_env example_my ''SELECT * FROM sql_diff'' [] None example_world
     = Some (Inr [\<lparr>row_cls = ''Row'', row_items = [(''id'', VInt 7), (''name'', VStr ''foo'')]\<rparr>],
        example_my,
        example_world\<lparr>ticks := 1,
           events := [Execute 2 ''SELECT * FROM sql_diff'' [], CursorClose 2]\<rparr>)
   \<and> map_option fst
        (my_get 1 example_env example_my ''SELECT * FROM sql_diff'' [] (Some ''SqlDiff'') example_world)
     = Some (Inr (Some \<lparr>row_cls = ''SqlDiff'',
                         row_items = [(''id'', VInt 7), (''name'', VStr ''foo'')]\<rparr>))"
proof -
  let ?r = "\<lparr>row_cls = ''Row'', row_items = [(''id'', VInt 7), (''name'', VStr ''foo'')]\<rparr>"
  let ?q = "''SELECT * FROM sql_diff''"
  have pg: "pg_query example_env example_pg ?q [] None example_world
     = (Inr [?r], example_pg\<lparr>last_use_time := 101\<rparr>,
        example_world\<lparr>ticks := 2, events := [Execute 1 ?q [], Commit 1, CursorClose 1]\<rparr>)"
    by (simp add: q_defs example_defs)
  have my: "my_query 1 example_env example_my ?q [] None example_world
     = Some (Inr [?r], example_my,
        example_world\<lparr>ticks := 1, events := [Execute 2 ?q [], CursorClose 2]\<rparr>)"
    by (simp add: q_defs example_defs)
  note pg_part = get_by_number_of_rows[where e = example_env and self = example_pg and query = ?q
      and parameters = "[]" and cls = None and w = example_world and rows = "[?r]" and r = ?r
      and ?self1.0 = "example_pg\<lparr>last_use_time := 101\<rparr>"
      and ?w1.0 = "example_world\<lparr>ticks := 2, events := [Execute 1 ?q [], Commit 1, CursorClose 1]\<rparr>",
      THEN conjunct1]
  note my_part = get_by_number_of_rows[where e = example_env and self' = example_my and query = ?q
      and parameters = "[]" and cls = "Some ''SqlDiff''" and w' = example_world and rows' = "[?r]"
      and r' = ?r and n = 1 and self1' = example_my
      and w1' = "example_world\<lparr>ticks := 1, events := [Execute 2 ?q [], CursorClose 2]\<rparr>",
      THEN conjunct2]
  from pg_part my_part
  show ?thesis using pg my by (simp add: rewrap_def)
qed

subsection \<open>execute\<close>

text \<open>
  C1 (as amended). Once the cursor is acquired and the driver has run the statement, the
  Postgres \<open>execute\<close> returns the generated identifier when the statement text starts
  with \<open>INSERT\<close>, at least one row was affected and the identifier came back as the first
  column of a result row (a RETURNING clause), and the affected-row count when the text
  does not start with \<open>INSERT\<close>; the MySQL \<open>execute\<close> returns the driver's last-inserted
  id for every statement.
\<close>

theorem execute_return_convention:
  "(pg__cursor e self w = (Inr h, self1, w1)
      \<and> driver_execute e (events w1) h query parameters = Inr cur \<longrightarrow>
      (startswith query ''INSERT'' \<and> rowcount cur > 0 \<and> description cur = Some d
         \<and> fetched cur = (v # vs) # rs
         \<longrightarrow> fst (pg_execute e self query parameters w) = Inr v)
    \<and> (\<not> startswith query ''INSERT''
         \<longrightarrow> fst (pg_execute e self query parameters w) = Inr (VInt (rowcount cur))))
 \<and> (my__cursor n e self' w' = Some (Inr h', self1', w1')
      \<and> driver_execute e (events w1') h' query parameters = Inr cur' \<longrightarrow>
      map_option fst (my_execute n e self' query parameters w') = Some (Inr (lastrowid cur')))"
proof (intro conjI impI)
  assume a: "pg__cursor e self w = (Inr h, self1, w1)
      \<and> driver_execute e (events w1) h query parameters = Inr cur"
  then have hd: "db_handle self1 = Some h" using pg_cursor_handle by blast
  {
    assume "startswith query ''INSERT'' \<and> rowcount cur > 0 \<and> description cur = Some d
         \<and> fetched cur = (v # vs) # rs"
    with a hd show "fst (pg_execute e self query parameters w) = Inr v"
      by (simp add: pg_execute_def pg_execute_lastrowid_def pg__execute_def fetchone_first_def)
  }
  {
    assume "\<not> startswith query ''INSERT''"
    with a hd show "fst (pg_execute e self query parameters w) = Inr (VInt (rowcount cur))"
      by (simp add: pg_execute_def pg_execute_rowcount_def pg__execute_def)
  }
next
  assume a: "my__cursor n e self' w' = Some (Inr h', self1', w1')
      \<and> driver_execute e (events w1') h' query parameters = Inr cur'"
  then show "map_option fst (my_execute n e self' query parameters w') = Some (Inr (lastrowid cur'))"
    by (simp add: my_execute_def my_execute_lastrowid_def my_execute_lastrowid_with_def
        my__cursor_def my__execute_def)
qed

theorem execute_return_convention_witness:
  "fst (pg_execute example_env example_pg ''INSERT INTO t (a) VALUES (1) RETURNING id'' []
          example_world) = Inr (VInt 7)
   \<and> fst (pg_execute example_env example_pg ''UPDATE t SET a = 1'' [] example_world)
       = Inr (VInt 3)
   \<and> map_option fst (my_execute 1 example_env example_my ''INSERT INTO t (a) VALUES (1)'' []
          example_world) = Some (Inr (VInt 0))"
proof -
  have c: "pg__cursor example_env example_pg example_world
     = (Inr 1, example_pg\<lparr>last_use_time := 101\<rparr>, example_world\<lparr>ticks := 2\<rparr>)"
    by (simp add: q_defs example_defs)
  have m: "my__cursor 1 example_env example_my example_world
     = Some (Inr 2, example_my, example_world\<lparr>ticks := 1\<rparr>)"
    by (simp add: q_defs example_defs)
  have d: "driver_execute example_env evs h q ps = Inr example_cursor" for evs h q ps
    by (simp add: example_env_def)
  have cur: "rowcount example_cursor > 0" "description example_cursor = Some [''id'', ''name'']"
      "fetched example_cursor = (VInt 7 # [VStr ''foo'']) # []" "rowcount example_cursor = 3"
    by (simp_all add: example_cursor_def)
  have s: "startswith ''INSERT INTO t (a) VALUES (1) RETURNING id'' ''INSERT''"
      "\<not> startswith ''UPDATE t SET a = 1'' ''INSERT''"
    by (simp_all add: startswith_def)
  note pg = execute_return_convention[where e = example_env and self = example_pg
      and w = example_world and h = 1 and ?self1.0 = "example_pg\<lparr>last_use_time := 101\<rparr>"
      and ?w1.0 = "example_world\<lparr>ticks := 2\<rparr>" and parameters = "[]" and cur = example_cursor
      and d = "[''id'', ''name'']" and v = "VInt 7" and vs = "[VStr ''foo'']" and rs = "[]",
      THEN conjunct1, rule_format, OF conjI, OF c d]
  note my = execute_return_convention[where e = example_env and self' = example_my
      and w' = example_world and h' = 2 and self1' = example_my and n = 1
      and w1' = "example_world\<lparr>ticks := 1\<rparr>" and parameters = "[]" and cur' = example_cursor,
      THEN conjunct2, rule_format, OF conjI, OF m d]
  from pg[of "''INSERT INTO t (a) VALUES (1) RETURNING id''"] pg[of "''UPDATE t SET a = 1''"]
    my[of "''INSERT INTO t (a) VALUES (1)''"] cur s
  show ?thesis
    by (simp add: example_cursor_def)
qed

text \<open>
  C1 as stated fails on both connections. On MySQL, for an UPDATE with three affected rows
  \<open>execute\<close> returns the last-inserted id 0, not the row count 3 that \<open>execute_rowcount\<close>
  reports for the same call. On Postgres, for an INSERT without RETURNING that affects one
  row \<open>execute\<close> raises the driver's error instead of returning an identifier.
\<close>

theorem execute_convention_counterexample:
  "\<not> startswith ''UPDATE widgets SET qty = 3'' ''INSERT''
   \<and> map_option fst (my_execute_rowcount 1 example_env example_my
          ''UPDATE widgets SET qty = 3'' [] example_world) = Some (Inr (VInt 3))
   \<and> map_option fst (my_execute 1 example_env example_my
          ''UPDATE widgets SET qty = 3'' [] example_world) = Some (Inr (VInt 0))
   \<and> startswith ''INSERT INTO widgets (name) VALUES (%s)'' ''INSERT''
   \<and> fst (pg_execute no_result_env example_pg
          ''INSERT INTO widgets (name) VALUES (%s)'' [VStr ''foo''] example_world)
       = Inl DatabaseError"
  by (simp add: startswith_def my_execute_def my_execute_lastrowid_def
      my_execute_lastrowid_with_def my_execute_rowcount_def pg_execute_def
      pg_execute_lastrowid_def fetchone_first_def q_defs no_result_env_def
      no_result_cursor_def example_defs)

subsection \<open>_ensure_connected\<close>

text \<open>
  The Postgres \<open>_ensure_connected\<close>: a live connection within its idle time keeps its
  handle, nothing is sent to the driver, and the last-use time becomes the next clock
  reading; otherwise it reconnects and, when that succeeds, stamps the last-use time too.
\<close>

lemma pg_ensure_connected_fresh:
  assumes "db_handle self = Some h"
      and "\<not> clock e (ticks w) - last_use_time self > max_idle_time self"
  shows "pg__ensure_connected e self w
     = (Inr (), self\<lparr>last_use_time := clock e (Suc (ticks w))\<rparr>, w\<lparr>ticks := Suc (Suc (ticks w))\<rparr>)"
  using assms by (simp add: pg__ensure_connected_def idle_too_long_def now_def)

lemma pg_ensure_connected_stale:
  assumes "db_handle self = None \<or> clock e (ticks w) - last_use_time self > max_idle_time self"
      and "pg_reconnect e self (snd (idle_too_long e self w)) = (Inr (), self2, w2)"
  shows "pg__ensure_connected e self w
     = (Inr (), self2\<lparr>last_use_time := clock e (ticks w2)\<rparr>, w2\<lparr>ticks := Suc (ticks w2)\<rparr>)"
  using assms by (auto simp add: pg__ensure_connected_def idle_too_long_def now_def split: prod.splits)

text \<open>
  The MySQL \<open>_ensure_connected\<close> assigns \<open>_last_use_time\<close> only inside the branch that
  reconnects: a live connection within its idle time is returned exactly as it was.
\<close>

lemma my_ensure_connected_fresh:
  assumes "db_handle self = Some h"
      and "\<not> clock e (ticks w) - last_use_time self > max_idle_time self"
  shows "my__ensure_connected (Suc n) e self w = Some (Inr (), self, w\<lparr>ticks := Suc (ticks w)\<rparr>)"
  using assms by (simp add: idle_too_long_def now_def)

text \<open>
  C3 at a concrete input. A live MySQL connection last used at time 0 is checked at time
  100: it is kept, and its last-use time is still 0. The Postgres \<open>_ensure_connected\<close> on
  the same object state stamps the last-use time with the clock (101).
\<close>

theorem mysql_ensure_connected_keeps_last_use:
  "db_handle example_my = Some 2 \<and> last_use_time example_my = 0
   \<and> clock example_env (ticks example_world) = 100
   \<and> my__ensure_connected 1 example_env example_my example_world
       = Some (Inr (), example_my, example_world\<lparr>ticks := 1\<rparr>)
   \<and> pg__ensure_connected example_env (example_my\<lparr>kind := Postgres\<rparr>) example_world
       = (Inr (), example_my\<lparr>kind := Postgres, last_use_time := 101\<rparr>, example_world\<lparr>ticks := 2\<rparr>)"
  by (simp add: q_defs example_defs)

text \<open>
  What follows from it: a MySQL connection created at time 0 and used at time 20000 is
  torn down and reconnected at its next use at time 30000, only 10000 seconds after it was
  last used, with an idle timeout of 25200.
\<close>

lemma mysql_reconnects_a_connection_in_use:
  "my__ensure_connected 1 drift_env example_my example_world
     = Some (Inr (), example_my, example_world\<lparr>ticks := 1\<rparr>)
   \<and> clock drift_env 1 - clock drift_env 0 = 10000
   \<and> my__ensure_connected 2 drift_env example_my (example_world\<lparr>ticks := 1\<rparr>)
     = Some (Inr (), example_my\<lparr>db_handle := Some 1, last_use_time := 40000\<rparr>,
         example_world\<lparr>ticks := 4,
           events := [CloseHandle 2, Connect (db_args example_my),
                      Execute 1 db_init_command [], CursorClose 1]\<rparr>)"
  by (simp add: q_defs example_defs drift_env_def my_reconnect_with_def
      my_execute_lastrowid_with_def close_def numeral_2_eq_2)

subsection \<open>db\<close>


lemma keys_dict_set: "fst ` set (dict_set d k v) = insert k (fst ` set d)"
  by (induction d k v rule: dict_set.induct) auto






lemmas registry_defs = db_def db_pg_step_def db_mysql_step_def db_lookup_def cached_def falsy_def
  pg_connect_def pg_init_def pg_reconnect_def my_connect_def my_init_def my_endpoint_def
  my_reconnect_def my_reconnect_with_def my_execute_def my_execute_lastrowid_def
  my_execute_lastrowid_with_def close_def

lemmas world_defs = pg_only_env_def one_cached_world_def two_cached_world_def






text \<open>
  Outside the amended claim: the assignment \<open>use_schema = options.mysql_schema\<close> after a
  connect makes \<open>db()\<close> return the MySQL connection it has just connected although
  another schema is cached already, where the comment in the source asks for an explicit
  choice.
\<close>

lemma db_returns_the_backend_it_connects:
  "cached one_cached_world = [(''alpha'', 0)]
   \<and> map_option fst (db 2 example_env None one_cached_world) = Some (Inr 1)"
  by (simp add: registry_defs q_defs world_defs example_defs numeral_2_eq_2)

subsection \<open>kva_split\<close>

lemma kva_step_foldl:
  "foldl kva_step (keys, values, args) columns =
     (keys @ map fst columns, values @ map (fragment_of \<circ> snd) columns,
      args @ map snd (filter (\<lambda>c. \<not> isinstance_Literal (snd c)) columns))"
proof (induction columns arbitrary: keys "values" args)
  case Nil
  then show ?case by simp
next
  case (Cons c columns)
  obtain key v where c: "c = (key, v)" by (cases c)
  have step: "kva_step (keys, values, args) c =
      (keys @ [key], values @ [fragment_of v],
       if isinstance_Literal v then args else args @ [v])"
    by (cases v) (simp_all add: c kva_step_def fragment_of_def isinstance_Literal_def)
  show ?case using step by (simp add: Cons.IH c)
qed

lemma placeholders_count:
  "length (filter (\<lambda>f. f = Str ''%s'') (map (fragment_of \<circ> snd) columns))
     = length (filter (\<lambda>c. \<not> isinstance_Literal (snd c)) columns)"
proof (induction columns)
  case Nil
  then show ?case by simp
next
  case (Cons c columns)
  then show ?case
    by (cases "snd c") (simp_all add: fragment_of_def isinstance_Literal_def)
qed

text \<open>
  C6. \<open>kva_split\<close> walks the changeset in its order: the keys are the column names in that
  order, the i-th fragment belongs to the i-th column (a \<open>Literal\<close> value goes in as it is
  and adds no bound value, any other value gives the placeholder \<open>'%s'\<close> and is appended to
  the bound values), and there are as many placeholder fragments as bound values.
\<close>

theorem kva_split_aligned:
  "kva_split columns =
     (map fst columns, map (fragment_of \<circ> snd) columns,
      map snd (filter (\<lambda>c. \<not> isinstance_Literal (snd c)) columns))
   \<and> fragment_of (VLiteral s) = Literal s
   \<and> length (filter (\<lambda>f. f = Str ''%s'') (fst (snd (kva_split columns))))
        = length (snd (snd (kva_split columns)))"
  using kva_step_foldl[of "[]" "[]" "[]" columns] placeholders_count[of columns]
  by (simp add: kva_split_def fragment_of_def)

theorem kva_split_aligned_witness:
  "kva_split [(''name'', VStr ''foo''), (''updated_at'', VLiteral ''NOW()''), (''qty'', VInt 3)]
     = ([''name'', ''updated_at'', ''qty''], [Str ''%s'', Literal ''NOW()'', Str ''%s''],
        [VStr ''foo'', VInt 3])"
  using kva_split_aligned[of "[(''name'', VStr ''foo''), (''updated_at'', VLiteral ''NOW()''), (''qty'', VInt 3)]"]
  by (simp add: fragment_of_def isinstance_Literal_def)

subsection \<open>update_columns\<close>

text \<open>
  C8. With an empty changeset \<open>update_columns\<close> returns \<open>None\<close> without raising, for every
  class and where-clause; the only thing it does is the debug log entry: no statement is
  executed, no connection is looked up or touched.
\<close>

theorem update_columns_empty_noop:
  "update_columns n e cls [] where_cols w
     = Some (Inr VNone,
             w\<lparr>events := events w @ [Log ''debug'' ''Nothing to update. Skipping query'']\<rparr>)"
  by (simp add: update_columns_def emit_def)

theorem update_columns_empty_noop_witness:
  "update_columns 0 example_env widgets [] [(''widget_id'', VInt 5)] two_cached_world
     = Some (Inr VNone,
         two_cached_world\<lparr>events := [Log ''debug'' ''Nothing to update. Skipping query'']\<rparr>)"
  using update_columns_empty_noop[of 0 example_env widgets "[(''widget_id'', VInt 5)]" two_cached_world]
  by (simp add: two_cached_world_def)

subsection \<open>Row attribute access\<close>

text \<open>
  C9 (as amended). For an attribute name that the normal lookup does not find on the class
  (not a method of \<open>Row\<close>, not an inherited attribute), attribute access gives the value
  key access gives when the column is present and raises AttributeError where key access
  raises KeyError.
\<close>

theorem row_attribute_access:
  "name \<notin> set Row_methods \<and> name \<notin> set inherited \<longrightarrow>
     (row_getitem r name = Inr v \<longrightarrow> getattribute inherited r name = Inr (Column v))
   \<and> (row_getitem r name = Inl (KeyError (Some name))
        \<longrightarrow> getattribute inherited r name = Inl (AttributeError name))
   \<and> (map_of (row_items r) name = Some v \<longrightarrow> row_getitem r name = Inr v)
   \<and> (map_of (row_items r) name = None \<longrightarrow> row_getitem r name = Inl (KeyError (Some name)))"
  by (simp add: getattribute_def Row_getattr_def row_getitem_def)

theorem row_attribute_access_witness:
  "getattribute [''keys'', ''items''] example_row ''name'' = Inr (Column (VStr ''foo''))
   \<and> row_getitem example_row ''name'' = Inr (VStr ''foo'')
   \<and> getattribute [''keys'', ''items''] example_row ''qty'' = Inl (AttributeError ''qty'')
   \<and> row_getitem example_row ''qty'' = Inl (KeyError (Some ''qty''))"
  using row_attribute_access[of "''name''" "[''keys'', ''items'']" example_row "VStr ''foo''"]
    row_attribute_access[of "''qty''" "[''keys'', ''items'']" example_row "VNone"]
  by (simp add: Row_methods_def example_row_def row_getitem_def)

text \<open>
  C9 as stated fails for a column named like a method the source defines on \<open>Row\<close>:
  \<open>row['map_id']\<close> is the column value, \<open>row.map_id\<close> is the classmethod.
\<close>

theorem row_method_name_counterexample:
  "row_getitem example_row ''map_id'' = Inr (VInt 1)
   \<and> getattribute [] example_row ''map_id'' = Inr (ClassAttribute ''map_id'')
   \<and> getattribute [] example_row ''map_id'' \<noteq> Inr (Column (VInt 1))"
  by (simp add: getattribute_def Row_methods_def example_row_def row_getitem_def)

text \<open>Nor does such a name raise AttributeError when the column is absent.\<close>

lemma absent_method_name_no_error:
  "row_getitem example_row ''get_id'' = Inl (KeyError (Some ''get_id''))
   \<and> getattribute [] example_row ''get_id'' = Inr (ClassAttribute ''get_id'')"
  by (simp add: getattribute_def Row_methods_def example_row_def row_getitem_def)

subsection \<open>scan_unapplied\<close>


lemma literal_tokens:
  "map ordering_token [''0010_a'', ''0005_b'', ''0020_c''] = [''_a'', ''_b'', ''_c'']"
  "map ordering_token [''0005_b'', ''0010_a'', ''0020_c''] = [''_b'', ''_a'', ''_c'']"
  "map ordering_token [''diff0005_b'', ''diff0010_a'', ''diff0020_c''] = [''000'', ''001'', ''002'']"
  by (simp_all add: ordering_token_def substring_from_for_def)









subsection \<open>insert_columns\<close>

lemma percent_format_plain:
  "CHR ''%'' \<notin> set s \<Longrightarrow> percent_format Plain s d = Inr s"
  by (induction s) auto

lemma heap_emit: "heap (emit ev w) = heap w"
  by (simp add: emit_def)

lemma insert_columns_unfold:
  assumes "db n e None w = Some (Inr a, w1)" and "a < length (heap w1)"
      and "CHR ''%'' \<notin> set (id_column cls)"
  shows "insert_columns n e cls insert_sql_txt columns w =
           conn_execute n e a (insert_statement (kind (heap w1 ! a)) cls columns)
             (snd (snd (kva_split columns))) (emit (Log ''warning'' ''USE DB'') w1)"
proof -
  obtain keys vals args where k: "kva_split columns = (keys, vals, args)"
    by (cases "kva_split columns")
  have f: "percent_format Plain
             (if a < length (heap w1) \<and> kind (heap w1 ! a) = Postgres
              then insert_sql_txt @ '' RETURNING '' @ id_column cls else insert_sql_txt)
             [(''db_table'', table_name cls), (''keys'', join '', '' keys),
              (''values'', join '', '' (map text_of vals))]
           = Inr (insert_statement (kind (heap w1 ! a)) cls columns)"
    using assms(2,3) k
    by (cases "kind (heap w1 ! a)")
       (simp_all add: insert_sql_txt_def percent_format_plain insert_statement_def)
  show ?thesis
    by (simp only: insert_columns_def Let_def k prod.case assms(1) option.case sum.case
        heap_emit f snd_conv)
qed

lemmas orm_defs = widgets_def widget_changes_def my_only_env_def one_mysql_world_def
  kva_split_def kva_step_def insert_statement_def

text \<open>
  C7. With the default template (and an \<open>id_column\<close> free of \<open>%\<close>), \<open>insert_columns\<close>
  executes on the connection \<open>db()\<close> returns the statement \<open>insert_statement\<close> for that
  connection's backend, with the bound values of \<open>kva_split\<close>: the Postgres statement is
  the MySQL statement followed by \<open>RETURNING id_column\<close>, the MySQL statement ends with
  the closing parenthesis of the VALUES list, and on MySQL the result is the cursor's
  \<open>lastrowid\<close>.
\<close>

theorem insert_columns_returning:
  "(db n e None w = Some (Inr a, w1) \<and> a < length (heap w1) \<and> CHR ''%'' \<notin> set (id_column cls)
      \<longrightarrow> insert_columns n e cls insert_sql_txt columns w =
           conn_execute n e a (insert_statement (kind (heap w1 ! a)) cls columns)
             (snd (snd (kva_split columns))) (emit (Log ''warning'' ''USE DB'') w1))
 \<and> insert_statement Postgres cls columns
      = insert_statement Mysql cls columns @ '' RETURNING '' @ id_column cls
 \<and> insert_statement Mysql cls columns
      = ''INSERT INTO '' @ table_name cls @ '' ('' @ join '', '' (fst (kva_split columns))
          @ '') VALUES ('' @ join '', '' (map text_of (fst (snd (kva_split columns)))) @  '')''
 \<and> (db n e None w = Some (Inr a, w1) \<and> a < length (heap w1) \<and> CHR ''%'' \<notin> set (id_column cls)
      \<and> kind (heap w1 ! a) = Mysql
      \<and> my__cursor n e (heap w1 ! a) (emit (Log ''warning'' ''USE DB'') w1) = Some (Inr h, self1, w3)
      \<and> driver_execute e (events w3) h (insert_statement Mysql cls columns)
            (snd (snd (kva_split columns))) = Inr cur
      \<longrightarrow> map_option fst (insert_columns n e cls insert_sql_txt columns w)
            = Some (Inr (lastrowid cur)))"
proof (intro conjI impI)
  assume "db n e None w = Some (Inr a, w1) \<and> a < length (heap w1)
      \<and> CHR ''%'' \<notin> set (id_column cls)"
  then show "insert_columns n e cls insert_sql_txt columns w =
           conn_execute n e a (insert_statement (kind (heap w1 ! a)) cls columns)
             (snd (snd (kva_split columns))) (emit (Log ''warning'' ''USE DB'') w1)"
    using insert_columns_unfold by blast
next
  show "insert_statement Postgres cls columns
      = insert_statement Mysql cls columns @ '' RETURNING '' @ id_column cls"
    by (simp add: insert_statement_def)
next
  show "insert_statement Mysql cls columns
      = ''INSERT INTO '' @ table_name cls @ '' ('' @ join '', '' (fst (kva_split columns))
          @ '') VALUES ('' @ join '', '' (map text_of (fst (snd (kva_split columns)))) @  '')''"
    by (simp add: insert_statement_def)
next
  let ?w2 = "emit (Log ''warning'' ''USE DB'') w1"
  assume h: "db n e None w = Some (Inr a, w1) \<and> a < length (heap w1)
      \<and> CHR ''%'' \<notin> set (id_column cls)
      \<and> kind (heap w1 ! a) = Mysql
      \<and> my__cursor n e (heap w1 ! a) ?w2 = Some (Inr h, self1, w3)
      \<and> driver_execute e (events w3) h (insert_statement Mysql cls columns)
            (snd (snd (kva_split columns))) = Inr cur"
  then have u: "insert_columns n e cls insert_sql_txt columns w =
           conn_execute n e a (insert_statement Mysql cls columns)
             (snd (snd (kva_split columns))) ?w2"
    using insert_columns_unfold[of n e w a w1 cls columns] by simp
  from h have ex: "my_execute n e (heap w1 ! a) (insert_statement Mysql cls columns)
        (snd (snd (kva_split columns))) ?w2
      = Some (Inr (lastrowid cur), self1,
          emit (CursorClose h) (emit (Execute h (insert_statement Mysql cls columns)
             (snd (snd (kva_split columns)))) w3))"
    by (simp add: my_execute_def my_execute_lastrowid_def my_execute_lastrowid_with_def
        my__cursor_def my__execute_def)
  show "map_option fst (insert_columns n e cls insert_sql_txt columns w)
            = Some (Inr (lastrowid cur))"
    unfolding u using h ex by (simp add: conn_execute_def heap_emit)
qed

theorem insert_columns_returning_witness:
  "insert_statement Postgres widgets widget_changes
     = ''INSERT INTO widgets (name, updated_at, qty) VALUES (%s, NOW(), %s) RETURNING widget_id''
   \<and> insert_statement Mysql widgets widget_changes
     = ''INSERT INTO widgets (name, updated_at, qty) VALUES (%s, NOW(), %s)''
   \<and> insert_columns 0 pg_only_env widgets insert_sql_txt widget_changes one_cached_world
     = Some (Inr (VInt 7),
         one_cached_world\<lparr>heap := [example_pg\<lparr>last_use_time := 101\<rparr>], ticks := 2,
           events := [Log ''warning'' ''USE DB'',
              Execute 1 (insert_statement Postgres widgets widget_changes) [VStr ''foo'', VInt 3],
              Commit 1, CursorClose 1]\<rparr>)
   \<and> map_option fst
        (insert_columns 1 my_only_env widgets insert_sql_txt widget_changes one_mysql_world)
     = Some (Inr (VInt 0))"
proof -
  have st: "insert_statement Postgres widgets widget_changes
     = ''INSERT INTO widgets (name, updated_at, qty) VALUES (%s, NOW(), %s) RETURNING widget_id''"
    "insert_statement Mysql widgets widget_changes
     = ''INSERT INTO widgets (name, updated_at, qty) VALUES (%s, NOW(), %s)''"
    by (simp_all add: orm_defs)
  have args: "snd (snd (kva_split widget_changes)) = [VStr ''foo'', VInt 3]"
    by (simp add: orm_defs)
  have idc: "CHR ''%'' \<notin> set (id_column widgets)" by (simp add: widgets_def)
  have dbpg: "db 0 pg_only_env None one_cached_world = Some (Inr 0, one_cached_world)"
    by (simp add: registry_defs world_defs example_defs)
  have dbmy: "db 1 my_only_env None one_mysql_world = Some (Inr 0, one_mysql_world)"
    by (simp add: registry_defs orm_defs example_defs)
  have hp: "(0::nat) < length (heap one_cached_world)" "kind (heap one_cached_world ! 0) = Postgres"
    and hm: "(0::nat) < length (heap one_mysql_world)" "kind (heap one_mysql_world ! 0) = Mysql"
    by (simp_all add: world_defs orm_defs example_defs)
  have pg: "insert_columns 0 pg_only_env widgets insert_sql_txt widget_changes one_cached_world
      = conn_execute 0 pg_only_env 0 (insert_statement Postgres widgets widget_changes)
          [VStr ''foo'', VInt 3] (emit (Log ''warning'' ''USE DB'') one_cached_world)"
    using insert_columns_returning[where n = 0 and e = pg_only_env and w = one_cached_world
        and a = 0 and ?w1.0 = one_cached_world and cls = widgets and columns = widget_changes,
        THEN conjunct1] dbpg hp idc args
    by simp
  have run: "conn_execute 0 pg_only_env 0
          ''INSERT INTO widgets (name, updated_at, qty) VALUES (%s, NOW(), %s) RETURNING widget_id''
          [VStr ''foo'', VInt 3] (emit (Log ''warning'' ''USE DB'') one_cached_world)
      = Some (Inr (VInt 7),
         one_cached_world\<lparr>heap := [example_pg\<lparr>last_use_time := 101\<rparr>], ticks := 2,
           events := [Log ''warning'' ''USE DB'',
              Execute 1 ''INSERT INTO widgets (name, updated_at, qty) VALUES (%s, NOW(), %s) RETURNING widget_id''
                [VStr ''foo'', VInt 3],
              Commit 1, CursorClose 1]\<rparr>)"
    by (simp add: conn_execute_def pg_execute_def pg_execute_lastrowid_def startswith_def
        fetchone_first_def q_defs world_defs example_defs)
  have cur: "my__cursor 1 my_only_env (heap one_mysql_world ! 0)
        (emit (Log ''warning'' ''USE DB'') one_mysql_world)
      = Some (Inr 2, example_my,
          one_mysql_world\<lparr>ticks := 1, events := [Log ''warning'' ''USE DB'']\<rparr>)"
    by (simp add: q_defs orm_defs example_defs)
  have drv: "driver_execute my_only_env evs 2 q ps = Inr example_cursor" for evs q ps
    by (simp add: my_only_env_def example_env_def)
  have my: "map_option fst
        (insert_columns 1 my_only_env widgets insert_sql_txt widget_changes one_mysql_world)
      = Some (Inr (lastrowid example_cursor))"
    using insert_columns_returning[where n = 1 and e = my_only_env and w = one_mysql_world
        and a = 0 and ?w1.0 = one_mysql_world and cls = widgets and columns = widget_changes
        and h = 2 and ?self1.0 = example_my and cur = example_cursor
        and ?w3.0 = "one_mysql_world\<lparr>ticks := 1, events := [Log ''warning'' ''USE DB'']\<rparr>",
        THEN conjunct2, THEN conjunct2, THEN conjunct2] dbmy hm idc cur drv
    by simp
  from st pg run my show ?thesis by (simp add: example_cursor_def)
qed

end
